theory Spec2Isabelle
  imports Complex_Main "HOL-Library.Word" "HOL-Library.Multiset"
begin

section \<open>Data model of EigenOptimizer.cpp\<close>

text \<open>
  The file \<^verbatim>\<open>gtsam/linear/EigenOptimizer.cpp\<close> assembles the sparse Jacobian of a
  Gaussian factor graph into one augmented matrix \<open>[A | b]\<close> and hands it to an Eigen
  solver chosen by an ordering string.

  \<^item> \<^verbatim>\<open>size_t\<close> is a 64-bit word: \<open>+\<close> and \<open>-\<close> wrap, \<open>max\<close> is the unsigned maximum.
  \<^item> A \<^verbatim>\<open>double\<close> value is read as the real number it denotes. \<open>setFromTriplets\<close> and the
    solver contracts are stated with the exact operations on reals; the rounding of the
    addition of \<^verbatim>\<open>double\<close> is modelled in the section on double arithmetic, for the one
    property that depends on the order of the additions.
  \<^item> A sparse entry is a tuple read by \<^verbatim>\<open>e.get<0>()\<close>, \<^verbatim>\<open>e.get<1>()\<close>, \<^verbatim>\<open>e.get<2>()\<close>. The
    tuple type is declared outside this file: the two indices are integers, the value a
    \<^verbatim>\<open>double\<close>. The declarations \<^verbatim>\<open>size_t temp_rows = e.get<0>(), temp_cols = e.get<1>()\<close>
    convert the indices to \<^verbatim>\<open>size_t\<close>: the conversion reduces modulo \<open>2\<^sup>6\<^sup>4\<close>, so an index
    between \<open>0\<close> and \<open>2\<^sup>6\<^sup>4 - 1\<close> is kept and a negative index \<open>-k\<close> becomes \<open>2\<^sup>6\<^sup>4 - k\<close>.
\<close>

type_synonym size_t = "64 word"

type_synonym SparseEntry = "int \<times> int \<times> real"

definition get0 :: "SparseEntry \<Rightarrow> int" where
  "get0 e = fst e"

definition get1 :: "SparseEntry \<Rightarrow> int" where
  "get1 e = fst (snd e)"

definition to_size_t :: "int \<Rightarrow> size_t" where
  "to_size_t n = word_of_int n"

definition get2 :: "SparseEntry \<Rightarrow> real" where
  "get2 e = snd (snd e)"

text \<open>\<^verbatim>\<open>Eigen::Triplet<double>\<close>: a row, a column and a value.\<close>

record Triplet =
  row :: size_t
  col :: size_t
  "value" :: real

text \<open>
  \<^verbatim>\<open>Eigen::SparseMatrix<double>\<close> is seen through its interface only: its shape and the
  coefficient at every coordinate (zero where nothing is stored).
\<close>

record SpMat =
  nrows :: size_t
  ncols :: size_t
  coeffs :: "size_t \<Rightarrow> size_t \<Rightarrow> real"

text \<open>
  The factor graph is consumed through two methods, \<^verbatim>\<open>sparseJacobian()\<close> and
  \<^verbatim>\<open>getKeyDimMap()\<close>; both live outside this file and are taken as given data.
\<close>

type_synonym Key = nat

type_synonym KeyDimMap = "(Key \<times> size_t) list"

record GaussianFactorGraph =
  sparseJacobian :: "SparseEntry list"
  getKeyDimMap :: KeyDimMap

section \<open>Eigen operations used by the file\<close>

text \<open>
  Modelled from the spec: the Eigen class is not part of the source file. Section 4.1: the
  constructor \<^verbatim>\<open>SpMat Ab(r, c)\<close> makes the matrix of shape \<open>r \<times> c\<close>, with no stored entry.
\<close>

definition SpMat_ctor :: "size_t \<Rightarrow> size_t \<Rightarrow> SpMat" where
  "SpMat_ctor r c = \<lparr>nrows = r, ncols = c, coeffs = (\<lambda>i j. 0)\<rparr>"

text \<open>
  Modelled from the spec: \<^verbatim>\<open>Eigen::SparseMatrix::setFromTriplets\<close> is not part of
  the source file. Section 3 and 4.1 of the specification: entries are accumulated one
  after the other, and an entry that targets a coordinate already written adds to the
  value there (it never replaces it). \<open>addTriplet\<close> is the accumulation of one triplet.
\<close>

definition addTriplet :: "SpMat \<Rightarrow> Triplet \<Rightarrow> SpMat" where
  "addTriplet M t =
     M\<lparr>coeffs := (\<lambda>i j. if i = row t \<and> j = col t then coeffs M i j + value t
                          else coeffs M i j)\<rparr>"

text \<open>
  Modelled from the spec: \<^verbatim>\<open>setFromTriplets\<close> discards what the matrix held and accumulates
  the triplets in the order of the list.
\<close>

definition setFromTriplets :: "Triplet list \<Rightarrow> SpMat \<Rightarrow> SpMat" where
  "setFromTriplets ts M = foldl addTriplet (M\<lparr>coeffs := (\<lambda>i j. 0)\<rparr>) ts"

text \<open>
  Modelled from the spec: \<^verbatim>\<open>makeCompressed()\<close> (section 4.1) changes the storage layout
  only; shape and coefficients stay.
\<close>

definition makeCompressed :: "SpMat \<Rightarrow> SpMat" where
  "makeCompressed M = M"

section \<open>obtainSparseMatrix\<close>

text \<open>
  One iteration of the \<^verbatim>\<open>for (const auto &e : entries)\<close> loop on the state
  \<open>(triplets, rows, cols)\<close>.
\<close>

definition loopBody :: "Triplet list \<times> size_t \<times> size_t \<Rightarrow> SparseEntry
    \<Rightarrow> Triplet list \<times> size_t \<times> size_t" where
  "loopBody s e =
     (case s of (triplets, rows, cols) \<Rightarrow>
        let temp_rows = to_size_t (get0 e); temp_cols = to_size_t (get1 e)
        in (triplets @ [\<lparr>row = temp_rows, col = temp_cols, value = get2 e\<rparr>],
            max rows temp_rows, max cols temp_cols))"

definition collectTriplets :: "SparseEntry list \<Rightarrow> Triplet list \<times> size_t \<times> size_t" where
  "collectTriplets entries = foldl loopBody ([], 0, 0) entries"

definition obtainSparseMatrix :: "GaussianFactorGraph \<Rightarrow> SpMat" where
  "obtainSparseMatrix gfg =
     (let entries = sparseJacobian gfg
      in case collectTriplets entries of (triplets, rows, cols) \<Rightarrow>
           let Ab = SpMat_ctor (rows + 1) (cols + 1);
               Ab = setFromTriplets triplets Ab;
               Ab = makeCompressed Ab
           in Ab)"

section \<open>Assembly in double arithmetic\<close>




text \<open>
  Modelled from the spec: the accumulation of \<^verbatim>\<open>setFromTriplets\<close> (sections 3 and 4.1: a
  later entry adds to the value of its coordinate) with the scalar addition as a parameter.
  With the exact addition it is \<open>setFromTriplets\<close> above; with \<open>plus_double\<close> it is the
  accumulation on \<^verbatim>\<open>double\<close> values, in the order of the list.
\<close>

definition addTripletWith :: "(real \<Rightarrow> real \<Rightarrow> real) \<Rightarrow> SpMat \<Rightarrow> Triplet \<Rightarrow> SpMat" where
  "addTripletWith add M t =
     M\<lparr>coeffs := (\<lambda>i j. if i = row t \<and> j = col t then add (coeffs M i j) (value t)
                          else coeffs M i j)\<rparr>"

definition setFromTripletsWith ::
    "(real \<Rightarrow> real \<Rightarrow> real) \<Rightarrow> Triplet list \<Rightarrow> SpMat \<Rightarrow> SpMat" where
  "setFromTripletsWith add ts M = foldl (addTripletWith add) (M\<lparr>coeffs := (\<lambda>i j. 0)\<rparr>) ts"

text \<open>
  \<^verbatim>\<open>obtainSparseMatrix\<close> with the scalar addition as a parameter: the loop and the shape are
  those of the source, the accumulation is \<open>setFromTripletsWith\<close>.
\<close>

definition obtainSparseMatrixWith ::
    "(real \<Rightarrow> real \<Rightarrow> real) \<Rightarrow> GaussianFactorGraph \<Rightarrow> SpMat" where
  "obtainSparseMatrixWith add gfg =
     (let entries = sparseJacobian gfg
      in case collectTriplets entries of (triplets, rows, cols) \<Rightarrow>
           let Ab = SpMat_ctor (rows + 1) (cols + 1);
               Ab = setFromTripletsWith add triplets Ab;
               Ab = makeCompressed Ab
           in Ab)"

section \<open>The solve strategies\<close>

text \<open>The indices below a bound \<open>n\<close>: \<open>0, 1, ..., n - 1\<close>.\<close>

definition indexRange :: "size_t \<Rightarrow> size_t list" where
  "indexRange n = map of_nat [0..<unat n]"

text \<open>
  Modelled from the spec: \<^verbatim>\<open>Ab.block(startRow, startCol, blockRows, blockCols)\<close> and
  \<^verbatim>\<open>Ab.col(j)\<close> are Eigen expressions, not part of the source file. Sections 4.3 and 4.4
  use them to split \<open>Ab\<close> into \<open>A\<close> (all columns but the last) and \<open>b\<close> (the last column). A
  column is an \<open>n \<times> 1\<close> matrix.
\<close>

definition block :: "SpMat \<Rightarrow> size_t \<Rightarrow> size_t \<Rightarrow> size_t \<Rightarrow> size_t \<Rightarrow> SpMat" where
  "block M startRow startCol blockRows blockCols =
     \<lparr>nrows = blockRows, ncols = blockCols,
      coeffs = (\<lambda>i j. if i < blockRows \<and> j < blockCols
                        then coeffs M (startRow + i) (startCol + j) else 0)\<rparr>"

definition col_SpMat :: "SpMat \<Rightarrow> size_t \<Rightarrow> SpMat" where
  "col_SpMat M j =
     \<lparr>nrows = nrows M, ncols = 1,
      coeffs = (\<lambda>i k. if i < nrows M \<and> k = 0 then coeffs M i j else 0)\<rparr>"

text \<open>
  Modelled from the spec: \<^verbatim>\<open>A.transpose()\<close> and the product \<^verbatim>\<open>At * A\<close> are Eigen
  expressions, not part of the source file. Section 4.4: they form \<open>N = A\<^sup>t A\<close> and
  \<open>c = A\<^sup>t b\<close>.
\<close>

definition transpose_SpMat :: "SpMat \<Rightarrow> SpMat" where
  "transpose_SpMat M = \<lparr>nrows = ncols M, ncols = nrows M, coeffs = (\<lambda>i j. coeffs M j i)\<rparr>"

definition times_SpMat :: "SpMat \<Rightarrow> SpMat \<Rightarrow> SpMat" where
  "times_SpMat A B =
     \<lparr>nrows = nrows A, ncols = ncols B,
      coeffs = (\<lambda>i j. sum_list (map (\<lambda>k. coeffs A i k * coeffs B k j) (indexRange (ncols A))))\<rparr>"

text \<open>
  The template parameter \<^verbatim>\<open>EigenSolverType\<close>: a solver is built from a matrix and then
  asked to \<^verbatim>\<open>solve\<close> a right-hand side; the answer is a dense \<^verbatim>\<open>Eigen::VectorXd\<close>. The
  factorization kernels themselves are Eigen's, so a solver is a parameter here.
\<close>

type_synonym EigenSolver = "SpMat \<Rightarrow> SpMat \<Rightarrow> real list"

definition solveQR :: "EigenSolver \<Rightarrow> SpMat \<Rightarrow> real list" where
  "solveQR solver Ab =
     (let rows = nrows Ab;
          cols = ncols Ab
      in solver (block Ab 0 0 rows (cols - 1)) (col_SpMat Ab (cols - 1)))"

definition solveCholesky :: "EigenSolver \<Rightarrow> SpMat \<Rightarrow> real list" where
  "solveCholesky solver Ab =
     (let rows = nrows Ab;
          cols = ncols Ab;
          A = block Ab 0 0 rows (cols - 1);
          At = transpose_SpMat A;
          b = col_SpMat Ab (cols - 1)
      in solver (times_SpMat At A) (times_SpMat At b))"

text \<open>
  The ordering classes that instantiate the solver templates:
  \<^verbatim>\<open>Eigen::AMDOrdering<int>\<close>, \<^verbatim>\<open>Eigen::COLAMDOrdering<int>\<close>,
  \<^verbatim>\<open>Eigen::NaturalOrdering<int>\<close> and \<^verbatim>\<open>Eigen::MetisOrdering<int>\<close>.
  \<^verbatim>\<open>Eigen::SparseQR<SpMat, O>\<close> and \<^verbatim>\<open>Eigen::SimplicialLDLT<SpMat, Eigen::Lower, O>\<close>
  are families of solvers indexed by the ordering \<open>O\<close>.
\<close>

datatype Ordering = AMDOrdering | COLAMDOrdering | NaturalOrdering | MetisOrdering

text \<open>
  The returned object \<^verbatim>\<open>VectorValues(x, gfg.getKeyDimMap())\<close>. Its constructor is defined in
  another file; the object is represented by the two arguments it is built from.
\<close>

datatype VectorValues = VectorValues "real list" KeyDimMap

text \<open>
  \<^verbatim>\<open>Eigen::VectorXd x;\<close> declares a vector of size zero. The chain of comparisons has no
  final \<^verbatim>\<open>else\<close>.
\<close>

definition optimizeEigenQR ::
    "(Ordering \<Rightarrow> EigenSolver) \<Rightarrow> GaussianFactorGraph \<Rightarrow> string \<Rightarrow> VectorValues" where
  "optimizeEigenQR SparseQR gfg orderingType =
     (let Ab = obtainSparseMatrix gfg;
          x = [];
          x = (if orderingType = ''AMD'' then solveQR (SparseQR AMDOrdering) Ab
               else if orderingType = ''COLAMD'' then solveQR (SparseQR COLAMDOrdering) Ab
               else if orderingType = ''NATURAL'' then solveQR (SparseQR NaturalOrdering) Ab
               else if orderingType = ''METIS'' then solveQR (SparseQR MetisOrdering) Ab
               else x)
      in VectorValues x (getKeyDimMap gfg))"

definition optimizeEigenCholesky ::
    "(Ordering \<Rightarrow> EigenSolver) \<Rightarrow> GaussianFactorGraph \<Rightarrow> string \<Rightarrow> VectorValues" where
  "optimizeEigenCholesky SimplicialLDLT gfg orderingType =
     (let Ab = obtainSparseMatrix gfg;
          x = [];
          x = (if orderingType = ''AMD'' then solveCholesky (SimplicialLDLT AMDOrdering) Ab
               else if orderingType = ''COLAMD'' then solveCholesky (SimplicialLDLT COLAMDOrdering) Ab
               else if orderingType = ''NATURAL'' then solveCholesky (SimplicialLDLT NaturalOrdering) Ab
               else if orderingType = ''METIS'' then solveCholesky (SimplicialLDLT MetisOrdering) Ab
               else x)
      in VectorValues x (getKeyDimMap gfg))"

section \<open>Notions used to state the properties\<close>

text \<open>The entry a sparse-Jacobian tuple becomes in the triplet list.\<close>

definition toTriplet :: "SparseEntry \<Rightarrow> Triplet" where
  "toTriplet e = \<lparr>row = to_size_t (get0 e), col = to_size_t (get1 e), value = get2 e\<rparr>"

text \<open>The sum of the values of the entries that target the coordinate \<open>(i, j)\<close>.\<close>

definition entrySum :: "SparseEntry list \<Rightarrow> size_t \<Rightarrow> size_t \<Rightarrow> real" where
  "entrySum es i j = sum_list (map get2 (filter (\<lambda>e. to_size_t (get0 e) = i \<and> to_size_t (get1 e) = j) es))"

text \<open>The string token that selects each ordering in the two entry points.\<close>

fun orderingName :: "Ordering \<Rightarrow> string" where
  "orderingName AMDOrdering = ''AMD''"
| "orderingName COLAMDOrdering = ''COLAMD''"
| "orderingName NaturalOrdering = ''NATURAL''"
| "orderingName MetisOrdering = ''METIS''"

text \<open>
  Row \<open>i\<close> of the product \<open>A x\<close> of a matrix and a dense vector, and the squared residual
  \<open>\<parallel>A x - b\<parallel>\<^sub>2\<^sup>2\<close>.
\<close>

definition applyTo :: "SpMat \<Rightarrow> real list \<Rightarrow> size_t \<Rightarrow> real" where
  "applyTo A x i = sum_list (map (\<lambda>j. coeffs A i j * x ! unat j) (indexRange (ncols A)))"

definition residual2 :: "SpMat \<Rightarrow> SpMat \<Rightarrow> real list \<Rightarrow> real" where
  "residual2 A b x =
     sum_list (map (\<lambda>i. (applyTo A x i - coeffs b i 0)\<^sup>2) (indexRange (nrows A)))"

text \<open>
  Modelled from the spec: what \<^verbatim>\<open>Eigen::SparseQR\<close> computes is not part of the source file.
  Sections 3 and 4.3: the solution vector has one entry per column of \<open>A\<close> and minimizes
  \<open>\<parallel>A x - b\<parallel>\<^sub>2\<close>.
\<close>

definition leastSquares :: "SpMat \<Rightarrow> SpMat \<Rightarrow> real list \<Rightarrow> bool" where
  "leastSquares A b x \<longleftrightarrow>
     length x = unat (ncols A) \<and>
     (\<forall>y. length y = unat (ncols A) \<longrightarrow> residual2 A b x \<le> residual2 A b y)"

text \<open>
  Modelled from the spec: what \<^verbatim>\<open>Eigen::SimplicialLDLT\<close> computes is not part of the source
  file. Sections 3 and 4.4: the solution vector has one entry per column of \<open>N\<close> and solves
  \<open>N x = c\<close>.
\<close>

definition solvesSystem :: "SpMat \<Rightarrow> SpMat \<Rightarrow> real list \<Rightarrow> bool" where
  "solvesSystem N c x \<longleftrightarrow>
     length x = unat (ncols N) \<and>
     list_all (\<lambda>i. applyTo N x i = coeffs c i 0) (indexRange (nrows N))"

text \<open>
  The same two problems read off the augmented matrix directly, in the words of the
  specification: \<open>A\<close> is all columns of \<open>Ab\<close> but the last, \<open>b\<close> is the last column,
  \<open>N = A\<^sup>t A\<close> and \<open>c = A\<^sup>t b\<close>.
\<close>

definition lsResidual :: "SpMat \<Rightarrow> real list \<Rightarrow> real" where
  "lsResidual Ab x =
     sum_list (map (\<lambda>i. (sum_list (map (\<lambda>j. coeffs Ab i j * x ! unat j)
                                      (indexRange (ncols Ab - 1)))
                          - coeffs Ab i (ncols Ab - 1))\<^sup>2)
                   (indexRange (nrows Ab)))"

definition normalMatrix :: "SpMat \<Rightarrow> size_t \<Rightarrow> size_t \<Rightarrow> real" where
  "normalMatrix Ab i j =
     sum_list (map (\<lambda>k. coeffs Ab k i * coeffs Ab k j) (indexRange (nrows Ab)))"

definition normalRhs :: "SpMat \<Rightarrow> size_t \<Rightarrow> real" where
  "normalRhs Ab i =
     sum_list (map (\<lambda>k. coeffs Ab k i * coeffs Ab k (ncols Ab - 1)) (indexRange (nrows Ab)))"

definition solvesNormalEquations :: "SpMat \<Rightarrow> real list \<Rightarrow> bool" where
  "solvesNormalEquations Ab x \<longleftrightarrow>
     length x = unat (ncols Ab - 1) \<and>
     list_all (\<lambda>i. sum_list (map (\<lambda>j. normalMatrix Ab i j * x ! unat j)
                                  (indexRange (ncols Ab - 1)))
                    = normalRhs Ab i)
              (indexRange (ncols Ab - 1))"

section \<open>Facts about the assembly loop\<close>

lemma foldl_loopBody:
  "foldl loopBody (ts, r, c) es =
     (ts @ map toTriplet es, foldl max r (map (\<lambda>e. to_size_t (get0 e)) es), foldl max c (map (\<lambda>e. to_size_t (get1 e)) es))"
  by (induction es arbitrary: ts r c) (simp_all add: loopBody_def toTriplet_def Let_def)

lemma collectTriplets_eq:
  "collectTriplets es =
     (map toTriplet es, foldl max 0 (map (\<lambda>e. to_size_t (get0 e)) es), foldl max 0 (map (\<lambda>e. to_size_t (get1 e)) es))"
  by (simp add: collectTriplets_def foldl_loopBody)

lemma foldl_max_Max:
  fixes r :: "'a::linorder"
  shows "foldl max r xs = Max (insert r (set xs))"
proof (induction xs arbitrary: r)
  case Nil
  show ?case by simp
next
  case (Cons x xs)
  have "Max (insert (max r x) (set xs)) = Max (insert r (insert x (set xs)))"
    by (cases "set xs = {}") (simp_all add: max.assoc)
  with Cons show ?case by simp
qed

lemma nrows_foldl_addTriplet: "nrows (foldl addTriplet M ts) = nrows M"
  by (induction ts arbitrary: M) (simp_all add: addTriplet_def)

lemma ncols_foldl_addTriplet: "ncols (foldl addTriplet M ts) = ncols M"
  by (induction ts arbitrary: M) (simp_all add: addTriplet_def)

lemma coeffs_foldl_addTriplet:
  "coeffs (foldl addTriplet M ts) i j =
     coeffs M i j + sum_list (map value (filter (\<lambda>t. row t = i \<and> col t = j) ts))"
  by (induction ts arbitrary: M) (simp_all add: addTriplet_def)

lemma filter_toTriplet:
  "map value (filter (\<lambda>t. row t = i \<and> col t = j) (map toTriplet es)) =
     map get2 (filter (\<lambda>e. to_size_t (get0 e) = i \<and> to_size_t (get1 e) = j) es)"
  by (induction es) (simp_all add: toTriplet_def)

lemma nrows_obtainSparseMatrix:
  "nrows (obtainSparseMatrix gfg) = foldl max 0 (map (\<lambda>e. to_size_t (get0 e)) (sparseJacobian gfg)) + 1"
  by (simp add: obtainSparseMatrix_def collectTriplets_eq Let_def makeCompressed_def
      setFromTriplets_def SpMat_ctor_def nrows_foldl_addTriplet)

lemma ncols_obtainSparseMatrix:
  "ncols (obtainSparseMatrix gfg) = foldl max 0 (map (\<lambda>e. to_size_t (get1 e)) (sparseJacobian gfg)) + 1"
  by (simp add: obtainSparseMatrix_def collectTriplets_eq Let_def makeCompressed_def
      setFromTriplets_def SpMat_ctor_def ncols_foldl_addTriplet)

lemma coeffs_obtainSparseMatrix:
  "coeffs (obtainSparseMatrix gfg) i j = entrySum (sparseJacobian gfg) i j"
  by (simp add: obtainSparseMatrix_def collectTriplets_eq Let_def makeCompressed_def
      setFromTriplets_def SpMat_ctor_def coeffs_foldl_addTriplet filter_toTriplet
      entrySum_def)


lemma Max_insert_zero_word:
  fixes S :: "size_t set"
  assumes "finite S" "S \<noteq> {}"
  shows "Max (insert 0 S) = Max S"
  using assms by (simp add: max_def)

lemma unat_plus_one:
  fixes w :: size_t
  assumes "w \<noteq> - 1"
  shows "unat (w + 1) = unat w + 1"
proof -
  from assms have nz: "w + 1 \<noteq> 0" by (simp add: eq_neg_iff_add_eq_0)
  then have "unat (w + 1 - 1) = unat (w + 1) - 1" by (rule unat_minus_one)
  moreover from nz have "unat (w + 1) \<noteq> 0" by (simp add: unat_eq_zero)
  ultimately show ?thesis by simp
qed

lemma foldl_max_zero_Max:
  fixes xs :: "size_t list"
  assumes "xs \<noteq> []"
  shows "foldl max 0 xs = Max (set xs)"
  using assms by (simp add: foldl_max_Max Max_insert_zero_word)

lemma uint_to_size_t:
  assumes "0 \<le> n" "n < 2 ^ 64"
  shows "uint (to_size_t n) = n"
  using assms by (simp add: to_size_t_def uint_word_of_int take_bit_int_eq_self)

lemma to_size_t_mono:
  assumes "0 \<le> m" "m \<le> n" "n < 2 ^ 64"
  shows "to_size_t m \<le> to_size_t n"
proof -
  from assms have "uint (to_size_t m) = m" "uint (to_size_t n) = n"
    by (simp_all add: uint_to_size_t)
  with assms(2) show ?thesis by (simp add: word_le_def)
qed

lemma Max_to_size_t:
  fixes S :: "int set"
  assumes fin: "finite S" and ne: "S \<noteq> {}"
      and range: "\<forall>n \<in> S. 0 \<le> n \<and> n < 2 ^ 64 - 1"
  shows "Max (to_size_t ` S) = to_size_t (Max S)"
    and "int (unat (to_size_t (Max S) + 1)) = Max S + 1"
proof -
  from fin ne have M: "Max S \<in> S" by (rule Max_in)
  with range have r: "0 \<le> Max S" "Max S < 2 ^ 64 - 1" by auto
  show "Max (to_size_t ` S) = to_size_t (Max S)"
  proof (rule Max_eqI)
    show "finite (to_size_t ` S)" using fin by simp
    show "to_size_t (Max S) \<in> to_size_t ` S" using M by (rule imageI)
    fix y assume "y \<in> to_size_t ` S"
    then obtain n where n: "n \<in> S" "y = to_size_t n" by auto
    from n(1) fin have "n \<le> Max S" by simp
    moreover from n(1) range have "0 \<le> n" by auto
    ultimately show "y \<le> to_size_t (Max S)"
      unfolding n(2) using r(2) by (intro to_size_t_mono) simp_all
  qed
  from r have u: "uint (to_size_t (Max S)) = Max S"
    by (intro uint_to_size_t) simp_all
  have "to_size_t (Max S) \<noteq> - 1"
  proof
    assume "to_size_t (Max S) = - 1"
    then have "uint (to_size_t (Max S)) = uint (- 1 :: size_t)" by simp
    moreover have "uint (- 1 :: size_t) = 18446744073709551615"
      by (simp add: unsigned_minus_1_eq_mask mask_eq_exp_minus_1)
    ultimately show False using u r(2) by simp
  qed
  then have "unat (to_size_t (Max S) + 1) = unat (to_size_t (Max S)) + 1"
    by (rule unat_plus_one)
  then show "int (unat (to_size_t (Max S) + 1)) = Max S + 1"
    using u by simp
qed

lemma Max_index_in_range:
  fixes f :: "SparseEntry \<Rightarrow> int"
  assumes ne: "es \<noteq> []"
      and range: "\<forall>e \<in> set es. 0 \<le> f e \<and> f e < 2 ^ 64 - 1"
  shows "int (unat (Max ((\<lambda>e. to_size_t (f e)) ` set es) + 1)) = Max (f ` set es) + 1"
proof -
  let ?S = "f ` set es"
  have fin: "finite ?S" by simp
  from ne have ne': "?S \<noteq> {}" by simp
  from range have range': "\<forall>n \<in> ?S. 0 \<le> n \<and> n < 2 ^ 64 - 1" by auto
  have "(\<lambda>e. to_size_t (f e)) ` set es = to_size_t ` ?S"
    by (simp add: image_image)
  moreover have "Max (to_size_t ` ?S) = to_size_t (Max ?S)"
    using fin ne' range' by (rule Max_to_size_t(1))
  ultimately show ?thesis
    using Max_to_size_t(2) [OF fin ne' range'] by simp
qed

lemma entrySum_mset:
  "entrySum es i j =
     sum_mset (image_mset get2 (filter_mset (\<lambda>e. to_size_t (get0 e) = i \<and> to_size_t (get1 e) = j) (mset es)))"
  by (simp add: entrySum_def flip: sum_mset_sum_list)

lemma foldl_max_ge_init:
  fixes r :: "'a::linorder"
  shows "r \<le> foldl max r xs"
  by (simp add: foldl_max_Max)


lemma addTripletWith_exact: "addTripletWith (+) = addTriplet"
  by (simp add: fun_eq_iff addTripletWith_def addTriplet_def)

lemma obtainSparseMatrixWith_exact: "obtainSparseMatrixWith (+) gfg = obtainSparseMatrix gfg"
  by (simp add: obtainSparseMatrixWith_def obtainSparseMatrix_def setFromTripletsWith_def
      setFromTriplets_def addTripletWith_exact)

lemma nrows_foldl_addTripletWith: "nrows (foldl (addTripletWith add) M ts) = nrows M"
  by (induction ts arbitrary: M) (simp_all add: addTripletWith_def)

lemma ncols_foldl_addTripletWith: "ncols (foldl (addTripletWith add) M ts) = ncols M"
  by (induction ts arbitrary: M) (simp_all add: addTripletWith_def)

lemma coeffs_foldl_addTripletWith:
  "coeffs (foldl (addTripletWith add) M ts) i j =
     foldl add (coeffs M i j) (map value (filter (\<lambda>t. row t = i \<and> col t = j) ts))"
  by (induction ts arbitrary: M) (simp_all add: addTripletWith_def)

lemma obtainSparseMatrixWith_eq:
  "obtainSparseMatrixWith add gfg =
     \<lparr>nrows = foldl max 0 (map (\<lambda>e. to_size_t (get0 e)) (sparseJacobian gfg)) + 1,
      ncols = foldl max 0 (map (\<lambda>e. to_size_t (get1 e)) (sparseJacobian gfg)) + 1,
      coeffs = (\<lambda>i j. foldl add 0 (map get2
         (filter (\<lambda>e. to_size_t (get0 e) = i \<and> to_size_t (get1 e) = j) (sparseJacobian gfg))))\<rparr>"
  by (rule SpMat.equality)
    (simp_all add: obtainSparseMatrixWith_def collectTriplets_eq Let_def makeCompressed_def
      setFromTripletsWith_def SpMat_ctor_def nrows_foldl_addTripletWith
      ncols_foldl_addTripletWith coeffs_foldl_addTripletWith filter_toTriplet fun_eq_iff)

lemma foldl_permutation:
  assumes assoc: "\<And>a b c. add (add a b) c = add a (add b c)"
      and comm: "\<And>a b. add a b = add b a"
      and "mset xs = mset ys"
  shows "foldl add a xs = foldl add a ys"
proof -
  have "add (add u y) x = add (add u x) y" for u x y
    by (metis assoc comm)
  then have "(\<lambda>u. add u x) \<circ> (\<lambda>u. add u y) = (\<lambda>u. add u y) \<circ> (\<lambda>u. add u x)" for x y
    by (simp add: fun_eq_iff)
  then have "fold (\<lambda>x u. add u x) xs = fold (\<lambda>x u. add u x) ys"
    using assms(3) by (intro fold_multiset_equiv)
  then show ?thesis by (simp add: foldl_conv_fold)
qed






lemma assembly_permutation_exact:
  assumes "mset (sparseJacobian g1) = mset (sparseJacobian g2)"
      and assoc: "\<And>a b c. add (add a b) c = add a (add b c)"
      and comm: "\<And>a b. add a b = add b a"
  shows "obtainSparseMatrixWith add g1 = obtainSparseMatrixWith add g2"
proof -
  from assms(1) have s: "set (sparseJacobian g1) = set (sparseJacobian g2)"
    by (rule mset_eq_setD)
  have r: "foldl max 0 (map (\<lambda>e. to_size_t (get0 e)) (sparseJacobian g1)) =
      foldl max 0 (map (\<lambda>e. to_size_t (get0 e)) (sparseJacobian g2))"
    by (simp add: foldl_max_Max s)
  have c: "foldl max 0 (map (\<lambda>e. to_size_t (get1 e)) (sparseJacobian g1)) =
      foldl max 0 (map (\<lambda>e. to_size_t (get1 e)) (sparseJacobian g2))"
    by (simp add: foldl_max_Max s)
  have v: "mset (map get2 (filter (\<lambda>e. to_size_t (get0 e) = i \<and> to_size_t (get1 e) = j)
               (sparseJacobian g1))) =
           mset (map get2 (filter (\<lambda>e. to_size_t (get0 e) = i \<and> to_size_t (get1 e) = j)
               (sparseJacobian g2)))" for i j
    by (simp add: assms(1))
  have "foldl add 0 (map get2 (filter (\<lambda>e. to_size_t (get0 e) = i \<and> to_size_t (get1 e) = j)
               (sparseJacobian g1))) =
          foldl add 0 (map get2 (filter (\<lambda>e. to_size_t (get0 e) = i \<and> to_size_t (get1 e) = j)
               (sparseJacobian g2)))" for i j
    using assoc comm v by (rule foldl_permutation)
  then show ?thesis
    by (simp add: obtainSparseMatrixWith_eq r c)
qed

section \<open>Facts about the split and the normal equations\<close>

lemma indexRange_member: "k \<in> set (indexRange n) \<longleftrightarrow> k < n"
proof
  assume "k \<in> set (indexRange n)"
  then obtain m where m: "m < unat n" "k = of_nat m"
    by (auto simp: indexRange_def)
  from m(1) have "m \<le> unat n" by simp
  then have "unat (of_nat m :: size_t) = m"
    by (rule le_unat_uoi)
  with m show "k < n" by (simp add: word_less_nat_alt)
next
  assume "k < n"
  then have "unat k < unat n" by (simp add: word_less_nat_alt)
  then have "unat k \<in> set [0..<unat n]" by simp
  then have "of_nat (unat k) \<in> set (indexRange n)"
    unfolding indexRange_def set_map by (rule imageI)
  then show "k \<in> set (indexRange n)" by simp
qed

lemma sum_list_indexRange_cong:
  assumes "\<And>k. k < n \<Longrightarrow> f k = g k"
  shows "sum_list (map f (indexRange n)) = sum_list (map g (indexRange n))"
proof -
  have "map f (indexRange n) = map g (indexRange n)"
    by (rule map_cong [OF refl]) (simp add: indexRange_member assms)
  then show ?thesis by (rule arg_cong)
qed

lemma applyTo_block:
  assumes "i < nrows Ab"
  shows "applyTo (block Ab 0 0 (nrows Ab) (ncols Ab - 1)) y i =
        sum_list (map (\<lambda>j. coeffs Ab i j * y ! unat j) (indexRange (ncols Ab - 1)))"
proof -
  have nc: "ncols (block Ab 0 0 (nrows Ab) (ncols Ab - 1)) = ncols Ab - 1"
    by (simp add: block_def)
  have step: "coeffs (block Ab 0 0 (nrows Ab) (ncols Ab - 1)) i j * y ! unat j
      = coeffs Ab i j * y ! unat j" if "j < ncols Ab - 1" for j
    using that assms by (simp add: block_def)
  show ?thesis
    unfolding applyTo_def nc by (rule sum_list_indexRange_cong) (rule step)
qed

lemma coeffs_col_SpMat:
  assumes "i < nrows Ab"
  shows "coeffs (col_SpMat Ab j) i 0 = coeffs Ab i j"
  using assms by (simp add: col_SpMat_def)

lemma residual2_split:
  "residual2 (block Ab 0 0 (nrows Ab) (ncols Ab - 1)) (col_SpMat Ab (ncols Ab - 1)) y =
     lsResidual Ab y"
proof -
  have nr: "nrows (block Ab 0 0 (nrows Ab) (ncols Ab - 1)) = nrows Ab"
    by (simp add: block_def)
  show ?thesis
    unfolding residual2_def lsResidual_def nr
    by (rule sum_list_indexRange_cong) (simp only: applyTo_block coeffs_col_SpMat)
qed

lemma solveQR_eq:
  "solveQR solver Ab =
     solver (block Ab 0 0 (nrows Ab) (ncols Ab - 1)) (col_SpMat Ab (ncols Ab - 1))"
  by (simp add: solveQR_def Let_def)

lemma solveCholesky_eq:
  "solveCholesky solver Ab =
     solver (times_SpMat (transpose_SpMat (block Ab 0 0 (nrows Ab) (ncols Ab - 1)))
                         (block Ab 0 0 (nrows Ab) (ncols Ab - 1)))
            (times_SpMat (transpose_SpMat (block Ab 0 0 (nrows Ab) (ncols Ab - 1)))
                         (col_SpMat Ab (ncols Ab - 1)))"
  by (simp add: solveCholesky_def Let_def)

lemma optimizeEigenQR_recognized:
  "optimizeEigenQR SparseQR gfg (orderingName ord) =
     VectorValues (solveQR (SparseQR ord) (obtainSparseMatrix gfg)) (getKeyDimMap gfg)"
  by (cases ord) (simp_all add: optimizeEigenQR_def Let_def)

lemma optimizeEigenCholesky_recognized:
  "optimizeEigenCholesky SimplicialLDLT gfg (orderingName ord) =
     VectorValues (solveCholesky (SimplicialLDLT ord) (obtainSparseMatrix gfg)) (getKeyDimMap gfg)"
  by (cases ord) (simp_all add: optimizeEigenCholesky_def Let_def)


lemma shape_normal_matrix:
  "nrows (times_SpMat (transpose_SpMat (block Ab 0 0 (nrows Ab) (ncols Ab - 1)))
                      (block Ab 0 0 (nrows Ab) (ncols Ab - 1))) = ncols Ab - 1"
  "ncols (times_SpMat (transpose_SpMat (block Ab 0 0 (nrows Ab) (ncols Ab - 1)))
                      (block Ab 0 0 (nrows Ab) (ncols Ab - 1))) = ncols Ab - 1"
  by (simp_all add: times_SpMat_def transpose_SpMat_def block_def)

lemma coeffs_normal_matrix:
  assumes "i < ncols Ab - 1" "j < ncols Ab - 1"
  shows "coeffs (times_SpMat (transpose_SpMat (block Ab 0 0 (nrows Ab) (ncols Ab - 1)))
                             (block Ab 0 0 (nrows Ab) (ncols Ab - 1))) i j
         = normalMatrix Ab i j"
proof -
  have step: "coeffs (transpose_SpMat (block Ab 0 0 (nrows Ab) (ncols Ab - 1))) i k
                * coeffs (block Ab 0 0 (nrows Ab) (ncols Ab - 1)) k j
              = coeffs Ab k i * coeffs Ab k j" if "k < nrows Ab" for k
    using that assms by (simp add: transpose_SpMat_def block_def)
  have nc: "ncols (transpose_SpMat (block Ab 0 0 (nrows Ab) (ncols Ab - 1))) = nrows Ab"
    by (simp add: transpose_SpMat_def block_def)
  have "coeffs (times_SpMat (transpose_SpMat (block Ab 0 0 (nrows Ab) (ncols Ab - 1)))
                             (block Ab 0 0 (nrows Ab) (ncols Ab - 1))) i j
        = sum_list (map (\<lambda>k. coeffs (transpose_SpMat (block Ab 0 0 (nrows Ab) (ncols Ab - 1))) i k
                * coeffs (block Ab 0 0 (nrows Ab) (ncols Ab - 1)) k j) (indexRange (nrows Ab)))"
    by (simp add: times_SpMat_def nc)
  also have "\<dots> = normalMatrix Ab i j"
    unfolding normalMatrix_def by (rule sum_list_indexRange_cong) (rule step)
  finally show ?thesis .
qed

lemma coeffs_normal_rhs:
  assumes "i < ncols Ab - 1"
  shows "coeffs (times_SpMat (transpose_SpMat (block Ab 0 0 (nrows Ab) (ncols Ab - 1)))
                             (col_SpMat Ab (ncols Ab - 1))) i 0
         = normalRhs Ab i"
proof -
  have step: "coeffs (transpose_SpMat (block Ab 0 0 (nrows Ab) (ncols Ab - 1))) i k
                * coeffs (col_SpMat Ab (ncols Ab - 1)) k 0
              = coeffs Ab k i * coeffs Ab k (ncols Ab - 1)" if "k < nrows Ab" for k
    using that assms by (simp add: transpose_SpMat_def block_def col_SpMat_def)
  have nc: "ncols (transpose_SpMat (block Ab 0 0 (nrows Ab) (ncols Ab - 1))) = nrows Ab"
    by (simp add: transpose_SpMat_def block_def)
  have "coeffs (times_SpMat (transpose_SpMat (block Ab 0 0 (nrows Ab) (ncols Ab - 1)))
                             (col_SpMat Ab (ncols Ab - 1))) i 0
        = sum_list (map (\<lambda>k. coeffs (transpose_SpMat (block Ab 0 0 (nrows Ab) (ncols Ab - 1))) i k
                * coeffs (col_SpMat Ab (ncols Ab - 1)) k 0) (indexRange (nrows Ab)))"
    by (simp add: times_SpMat_def nc)
  also have "\<dots> = normalRhs Ab i"
    unfolding normalRhs_def by (rule sum_list_indexRange_cong) (rule step)
  finally show ?thesis .
qed

lemma applyTo_normal_matrix:
  assumes "i < ncols Ab - 1"
  shows "applyTo (times_SpMat (transpose_SpMat (block Ab 0 0 (nrows Ab) (ncols Ab - 1)))
                              (block Ab 0 0 (nrows Ab) (ncols Ab - 1))) x i
         = sum_list (map (\<lambda>j. normalMatrix Ab i j * x ! unat j) (indexRange (ncols Ab - 1)))"
  unfolding applyTo_def shape_normal_matrix
  by (rule sum_list_indexRange_cong) (simp only: coeffs_normal_matrix assms)

lemma solvesSystem_normal:
  assumes "solvesSystem
      (times_SpMat (transpose_SpMat (block Ab 0 0 (nrows Ab) (ncols Ab - 1)))
                   (block Ab 0 0 (nrows Ab) (ncols Ab - 1)))
      (times_SpMat (transpose_SpMat (block Ab 0 0 (nrows Ab) (ncols Ab - 1)))
                   (col_SpMat Ab (ncols Ab - 1))) x"
  shows "solvesNormalEquations Ab x"
proof -
  from assms have len: "length x = unat (ncols Ab - 1)"
    by (simp only: solvesSystem_def shape_normal_matrix)
  from assms have rows: "\<And>i. i < ncols Ab - 1 \<Longrightarrow>
      applyTo (times_SpMat (transpose_SpMat (block Ab 0 0 (nrows Ab) (ncols Ab - 1)))
                           (block Ab 0 0 (nrows Ab) (ncols Ab - 1))) x i
      = coeffs (times_SpMat (transpose_SpMat (block Ab 0 0 (nrows Ab) (ncols Ab - 1)))
                            (col_SpMat Ab (ncols Ab - 1))) i 0"
    by (simp add: solvesSystem_def shape_normal_matrix list_all_iff indexRange_member)
  have "sum_list (map (\<lambda>j. normalMatrix Ab i j * x ! unat j) (indexRange (ncols Ab - 1)))
          = normalRhs Ab i" if "i < ncols Ab - 1" for i
    using rows [OF that] that by (simp only: applyTo_normal_matrix coeffs_normal_rhs)
  with len show ?thesis
    by (simp add: solvesNormalEquations_def list_all_iff indexRange_member)
qed


lemma optimizeEigenQR_same_iff:
  "optimizeEigenQR SparseQR gfg (orderingName o1) = optimizeEigenQR SparseQR gfg (orderingName o2)
   \<longleftrightarrow> solveQR (SparseQR o1) (obtainSparseMatrix gfg) = solveQR (SparseQR o2) (obtainSparseMatrix gfg)"
  by (simp add: optimizeEigenQR_recognized)

lemma optimizeEigenCholesky_same_iff:
  "optimizeEigenCholesky L gfg (orderingName o1) = optimizeEigenCholesky L gfg (orderingName o2)
   \<longleftrightarrow> solveCholesky (L o1) (obtainSparseMatrix gfg) = solveCholesky (L o2) (obtainSparseMatrix gfg)"
  by (simp add: optimizeEigenCholesky_recognized)

lemma orderings_agree_when_unique:
  fixes gfg :: GaussianFactorGraph
  defines "Ab \<equiv> obtainSparseMatrix gfg"
  defines "A \<equiv> block Ab 0 0 (nrows Ab) (ncols Ab - 1)"
      and "b \<equiv> col_SpMat Ab (ncols Ab - 1)"
  assumes "leastSquares A b (SparseQR o1 A b)" "leastSquares A b (SparseQR o2 A b)"
      and "\<forall>y z. leastSquares A b y \<and> leastSquares A b z \<longrightarrow> y = z"
  shows "optimizeEigenQR SparseQR gfg (orderingName o1) =
           optimizeEigenQR SparseQR gfg (orderingName o2)"
proof -
  from assms(4-6) have "SparseQR o1 A b = SparseQR o2 A b" by blast
  then show ?thesis
    unfolding optimizeEigenQR_same_iff solveQR_eq A_def b_def Ab_def .
qed


lemma indexRange_1: "indexRange 1 = [0]"
  by (simp add: indexRange_def)

lemma indexRange_2: "indexRange 2 = [0, 1]"
  by (simp add: indexRange_def upt_rec)

section \<open>The two-factor system of the specification\<close>

text \<open>
  Two factors \<open>1 \<cdot> x = 2\<close> and \<open>1 \<cdot> x = 4\<close> on one scalar variable: the sparse Jacobian has
  the entries \<open>(0, 0, 1)\<close>, \<open>(0, 1, 2)\<close>, \<open>(1, 0, 1)\<close>, \<open>(1, 1, 4)\<close>, so that
  \<open>A = [[1], [1]]\<close> and \<open>b = [2, 4]\<close>. Its residual is \<open>(x - 2)\<^sup>2 + (x - 4)\<^sup>2\<close>, smallest
  at \<open>x = 3\<close>, and its normal equations are \<open>2 x = 6\<close>.
\<close>

lemma example_shape:
  "nrows (obtainSparseMatrix
      \<lparr>sparseJacobian = [(0, 0, 1), (0, 1, 2), (1, 0, 1), (1, 1, 4)], getKeyDimMap = kd\<rparr>) = 2"
  "ncols (obtainSparseMatrix
      \<lparr>sparseJacobian = [(0, 0, 1), (0, 1, 2), (1, 0, 1), (1, 1, 4)], getKeyDimMap = kd\<rparr>) = 2"
  by (simp_all add: nrows_obtainSparseMatrix ncols_obtainSparseMatrix get0_def get1_def to_size_t_def)

lemma example_coeffs:
  "coeffs (obtainSparseMatrix
      \<lparr>sparseJacobian = [(0, 0, 1), (0, 1, 2), (1, 0, 1), (1, 1, 4)], getKeyDimMap = kd\<rparr>) 0 0 = 1"
  "coeffs (obtainSparseMatrix
      \<lparr>sparseJacobian = [(0, 0, 1), (0, 1, 2), (1, 0, 1), (1, 1, 4)], getKeyDimMap = kd\<rparr>) 0 1 = 2"
  "coeffs (obtainSparseMatrix
      \<lparr>sparseJacobian = [(0, 0, 1), (0, 1, 2), (1, 0, 1), (1, 1, 4)], getKeyDimMap = kd\<rparr>) 1 0 = 1"
  "coeffs (obtainSparseMatrix
      \<lparr>sparseJacobian = [(0, 0, 1), (0, 1, 2), (1, 0, 1), (1, 1, 4)], getKeyDimMap = kd\<rparr>) 1 1 = 4"
  by (simp_all add: coeffs_obtainSparseMatrix entrySum_def get0_def get1_def to_size_t_def get2_def)

lemma example_lsResidual:
  "lsResidual (obtainSparseMatrix
      \<lparr>sparseJacobian = [(0, 0, 1), (0, 1, 2), (1, 0, 1), (1, 1, 4)], getKeyDimMap = kd\<rparr>) y
   = (y ! 0 - 2)\<^sup>2 + (y ! 0 - 4)\<^sup>2"
  by (simp add: lsResidual_def example_shape example_coeffs indexRange_1 indexRange_2)

lemma example_least_squares:
  "leastSquares
     (block (obtainSparseMatrix
        \<lparr>sparseJacobian = [(0, 0, 1), (0, 1, 2), (1, 0, 1), (1, 1, 4)], getKeyDimMap = kd\<rparr>) 0 0 2 1)
     (col_SpMat (obtainSparseMatrix
        \<lparr>sparseJacobian = [(0, 0, 1), (0, 1, 2), (1, 0, 1), (1, 1, 4)], getKeyDimMap = kd\<rparr>) 1)
     [3]"
proof -
  let ?Ab = "obtainSparseMatrix
        \<lparr>sparseJacobian = [(0, 0, 1), (0, 1, 2), (1, 0, 1), (1, 1, 4)], getKeyDimMap = kd\<rparr>"
  have r: "residual2 (block ?Ab 0 0 2 1) (col_SpMat ?Ab 1) y = (y ! 0 - 2)\<^sup>2 + (y ! 0 - 4)\<^sup>2" for y
    using residual2_split [of ?Ab y] by (simp add: example_shape example_lsResidual)
  have "(t - 2)\<^sup>2 + (t - 4)\<^sup>2 = 2 + 2 * (t - 3)\<^sup>2" for t :: real
    by (simp add: power2_eq_square algebra_simps)
  then have "2 \<le> (t - 2)\<^sup>2 + (t - 4)\<^sup>2" for t :: real
    by simp
  then have le: "residual2 (block ?Ab 0 0 2 1) (col_SpMat ?Ab 1) [3]
      \<le> residual2 (block ?Ab 0 0 2 1) (col_SpMat ?Ab 1) y" for y
    by (simp add: r)
  have nc: "ncols (block ?Ab 0 0 2 1) = 1" by (simp add: block_def)
  show ?thesis
    unfolding leastSquares_def nc using le by simp
qed

lemma example_normal:
  "normalMatrix (obtainSparseMatrix
      \<lparr>sparseJacobian = [(0, 0, 1), (0, 1, 2), (1, 0, 1), (1, 1, 4)], getKeyDimMap = kd\<rparr>) 0 0 = 2"
  "normalRhs (obtainSparseMatrix
      \<lparr>sparseJacobian = [(0, 0, 1), (0, 1, 2), (1, 0, 1), (1, 1, 4)], getKeyDimMap = kd\<rparr>) 0 = 6"
  by (simp_all add: normalMatrix_def normalRhs_def example_shape example_coeffs indexRange_2)

lemma example_solves_system:
  fixes kd :: KeyDimMap
  defines "Ab \<equiv> obtainSparseMatrix
      \<lparr>sparseJacobian = [(0, 0, 1), (0, 1, 2), (1, 0, 1), (1, 1, 4)], getKeyDimMap = kd\<rparr>"
  shows "solvesSystem
     (times_SpMat (transpose_SpMat (block Ab 0 0 (nrows Ab) (ncols Ab - 1)))
                  (block Ab 0 0 (nrows Ab) (ncols Ab - 1)))
     (times_SpMat (transpose_SpMat (block Ab 0 0 (nrows Ab) (ncols Ab - 1)))
                  (col_SpMat Ab (ncols Ab - 1)))
     [3]"
proof -
  have one: "ncols Ab - 1 = 1" by (simp add: Ab_def example_shape)
  have lt: "0 < ncols Ab - 1" by (simp add: one)
  have N: "normalMatrix Ab 0 0 = 2" and c: "normalRhs Ab 0 = 6"
    by (simp_all add: Ab_def example_normal)
  have "applyTo (times_SpMat (transpose_SpMat (block Ab 0 0 (nrows Ab) (ncols Ab - 1)))
                  (block Ab 0 0 (nrows Ab) (ncols Ab - 1))) [3] 0 = 6"
    unfolding applyTo_normal_matrix [OF lt] by (simp add: one indexRange_1 N)
  moreover have "coeffs (times_SpMat (transpose_SpMat (block Ab 0 0 (nrows Ab) (ncols Ab - 1)))
                  (col_SpMat Ab (ncols Ab - 1))) 0 0 = 6"
    unfolding coeffs_normal_rhs [OF lt] by (rule c)
  ultimately show ?thesis
    unfolding solvesSystem_def shape_normal_matrix by (simp add: one indexRange_1)
qed

section \<open>A rank-deficient system\<close>

text \<open>
  One factor \<open>1 \<cdot> x + 1 \<cdot> y = 2\<close> on two scalar variables: the sparse Jacobian has the
  entries \<open>(0, 0, 1)\<close>, \<open>(0, 1, 1)\<close>, \<open>(0, 2, 2)\<close>, so that \<open>A = [[1, 1]]\<close> and \<open>b = [2]\<close>. The
  residual \<open>(x + y - 2)\<^sup>2\<close> is zero at \<open>[2, 0]\<close> and at \<open>[0, 2]\<close>: the least-squares solution
  is not unique.
\<close>

lemma indexRange_3: "indexRange 3 = [0, 1, 2]"
  by (simp add: indexRange_def upt_rec)





section \<open>Properties of the assembly\<close>



text \<open>
  Claim C5. The shape of the assembled matrix is computed from the entries alone: an empty
  entry sequence gives a \<open>1 \<times> 1\<close> matrix, and a non-empty one gives \<open>(R + 1) \<times> (C + 1)\<close>
  for the largest row index \<open>R\<close> and the largest column index \<open>C\<close> among the entries. The
  additions are those of \<^verbatim>\<open>size_t\<close>; read as natural numbers the shape is
  \<open>(R + 1, C + 1)\<close> for every index below the largest \<^verbatim>\<open>size_t\<close> value \<open>2\<^sup>6\<^sup>4 - 1\<close>. When
  every index of the entries is in the range \<open>0 \<le> n < 2\<^sup>6\<^sup>4 - 1\<close>, the conversion to
  \<^verbatim>\<open>size_t\<close> changes nothing and \<open>R\<close>, \<open>C\<close> are the largest indices as the entries carry them.
\<close>

theorem obtainSparseMatrix_shape:
  "(sparseJacobian gfg = [] \<longrightarrow>
      nrows (obtainSparseMatrix gfg) = 1 \<and> ncols (obtainSparseMatrix gfg) = 1)
   \<and> (sparseJacobian gfg \<noteq> [] \<longrightarrow>
      nrows (obtainSparseMatrix gfg) = Max ((\<lambda>e. to_size_t (get0 e)) ` set (sparseJacobian gfg)) + 1
      \<and> ncols (obtainSparseMatrix gfg) = Max ((\<lambda>e. to_size_t (get1 e)) ` set (sparseJacobian gfg)) + 1
      \<and> (Max ((\<lambda>e. to_size_t (get0 e)) ` set (sparseJacobian gfg)) \<noteq> - 1 \<longrightarrow>
           unat (nrows (obtainSparseMatrix gfg)) = unat (Max ((\<lambda>e. to_size_t (get0 e)) ` set (sparseJacobian gfg))) + 1)
      \<and> (Max ((\<lambda>e. to_size_t (get1 e)) ` set (sparseJacobian gfg)) \<noteq> - 1 \<longrightarrow>
           unat (ncols (obtainSparseMatrix gfg)) = unat (Max ((\<lambda>e. to_size_t (get1 e)) ` set (sparseJacobian gfg))) + 1)
      \<and> ((\<forall>e \<in> set (sparseJacobian gfg). 0 \<le> get0 e \<and> get0 e < 2 ^ 64 - 1) \<longrightarrow>
           int (unat (nrows (obtainSparseMatrix gfg))) = Max (get0 ` set (sparseJacobian gfg)) + 1)
      \<and> ((\<forall>e \<in> set (sparseJacobian gfg). 0 \<le> get1 e \<and> get1 e < 2 ^ 64 - 1) \<longrightarrow>
           int (unat (ncols (obtainSparseMatrix gfg))) = Max (get1 ` set (sparseJacobian gfg)) + 1))"
proof (intro conjI impI)
  assume "sparseJacobian gfg = []"
  then show "nrows (obtainSparseMatrix gfg) = 1" "ncols (obtainSparseMatrix gfg) = 1"
    by (simp_all add: nrows_obtainSparseMatrix ncols_obtainSparseMatrix)
next
  assume ne: "sparseJacobian gfg \<noteq> []"
  then show r: "nrows (obtainSparseMatrix gfg) = Max ((\<lambda>e. to_size_t (get0 e)) ` set (sparseJacobian gfg)) + 1"
    by (simp add: nrows_obtainSparseMatrix foldl_max_zero_Max)
  from ne show c: "ncols (obtainSparseMatrix gfg) = Max ((\<lambda>e. to_size_t (get1 e)) ` set (sparseJacobian gfg)) + 1"
    by (simp add: ncols_obtainSparseMatrix foldl_max_zero_Max)
  {
    assume "Max ((\<lambda>e. to_size_t (get0 e)) ` set (sparseJacobian gfg)) \<noteq> - 1"
    then show "unat (nrows (obtainSparseMatrix gfg)) = unat (Max ((\<lambda>e. to_size_t (get0 e)) ` set (sparseJacobian gfg))) + 1"
      unfolding r by (rule unat_plus_one)
  }
  {
    assume "Max ((\<lambda>e. to_size_t (get1 e)) ` set (sparseJacobian gfg)) \<noteq> - 1"
    then show "unat (ncols (obtainSparseMatrix gfg)) = unat (Max ((\<lambda>e. to_size_t (get1 e)) ` set (sparseJacobian gfg))) + 1"
      unfolding c by (rule unat_plus_one)
  }
  {
    assume "\<forall>e \<in> set (sparseJacobian gfg). 0 \<le> get0 e \<and> get0 e < 2 ^ 64 - 1"
    with ne show "int (unat (nrows (obtainSparseMatrix gfg))) = Max (get0 ` set (sparseJacobian gfg)) + 1"
      unfolding r by (rule Max_index_in_range)
  }
  {
    assume "\<forall>e \<in> set (sparseJacobian gfg). 0 \<le> get1 e \<and> get1 e < 2 ^ 64 - 1"
    with ne show "int (unat (ncols (obtainSparseMatrix gfg))) = Max (get1 ` set (sparseJacobian gfg)) + 1"
      unfolding c by (rule Max_index_in_range)
  }
qed

text \<open>
  The empty sequence gives \<open>1 \<times> 1\<close>; the four entries of the system \<open>A = [[1], [1]]\<close>,
  \<open>b = [2, 4]\<close> give \<open>2 \<times> 2\<close>.
\<close>

theorem obtainSparseMatrix_shape_witness:
  "nrows (obtainSparseMatrix \<lparr>sparseJacobian = [], getKeyDimMap = []\<rparr>) = 1
   \<and> ncols (obtainSparseMatrix \<lparr>sparseJacobian = [], getKeyDimMap = []\<rparr>) = 1
   \<and> unat (nrows (obtainSparseMatrix
        \<lparr>sparseJacobian = [(0, 0, 1), (0, 1, 2), (1, 0, 1), (1, 1, 4)], getKeyDimMap = []\<rparr>)) = 2
   \<and> unat (ncols (obtainSparseMatrix
        \<lparr>sparseJacobian = [(0, 0, 1), (0, 1, 2), (1, 0, 1), (1, 1, 4)], getKeyDimMap = []\<rparr>)) = 2
   \<and> int (unat (nrows (obtainSparseMatrix
        \<lparr>sparseJacobian = [(0, 0, 1), (0, 1, 2), (1, 0, 1), (1, 1, 4)], getKeyDimMap = []\<rparr>))) =
       Max {0, 1} + 1"
  using obtainSparseMatrix_shape [of "\<lparr>sparseJacobian = [], getKeyDimMap = []\<rparr>"]
    obtainSparseMatrix_shape
      [of "\<lparr>sparseJacobian = [(0, 0, 1), (0, 1, 2), (1, 0, 1), (1, 1, 4)], getKeyDimMap = []\<rparr>"]
  by (simp add: get0_def get1_def to_size_t_def)







section \<open>Properties of the two entry points\<close>

text \<open>
  Claim C2. For every ordering string other than the four tokens \<^verbatim>\<open>"NATURAL"\<close>,
  \<^verbatim>\<open>"AMD"\<close>, \<^verbatim>\<open>"COLAMD"\<close>, \<^verbatim>\<open>"METIS"\<close> (compared case-sensitively), both entry points
  return the object built from the default, size-zero vector, whatever the solvers are: no
  branch runs, no solver is called and no ordering is substituted.
\<close>

theorem unrecognized_ordering_no_solution:
  assumes "orderingType \<notin> {''NATURAL'', ''AMD'', ''COLAMD'', ''METIS''}"
  shows "optimizeEigenQR SparseQR gfg orderingType = VectorValues [] (getKeyDimMap gfg)
       \<and> optimizeEigenCholesky SimplicialLDLT gfg orderingType = VectorValues [] (getKeyDimMap gfg)"
  using assms by (simp add: optimizeEigenQR_def optimizeEigenCholesky_def Let_def)

text \<open>
  \<^verbatim>\<open>"BOGUS"\<close> and the lower-case \<^verbatim>\<open>"amd"\<close> are not recognized: the solver, which would
  answer \<open>[3]\<close>, is not consulted.
\<close>

theorem unrecognized_ordering_no_solution_witness:
  "''BOGUS'' \<notin> {''NATURAL'', ''AMD'', ''COLAMD'', ''METIS''}
   \<and> ''amd'' \<notin> {''NATURAL'', ''AMD'', ''COLAMD'', ''METIS''}
   \<and> optimizeEigenQR (\<lambda>ord A b. [3])
        \<lparr>sparseJacobian = [(0, 0, 1), (0, 1, 2), (1, 0, 1), (1, 1, 4)], getKeyDimMap = [(0, 1)]\<rparr>
        ''BOGUS'' = VectorValues [] [(0, 1)]
   \<and> optimizeEigenCholesky (\<lambda>ord A b. [3])
        \<lparr>sparseJacobian = [(0, 0, 1), (0, 1, 2), (1, 0, 1), (1, 1, 4)], getKeyDimMap = [(0, 1)]\<rparr>
        ''amd'' = VectorValues [] [(0, 1)]"
proof -
  have b: "''BOGUS'' \<notin> {''NATURAL'', ''AMD'', ''COLAMD'', ''METIS''}" by simp
  have a: "''amd'' \<notin> {''NATURAL'', ''AMD'', ''COLAMD'', ''METIS''}" by simp
  show ?thesis
    using a b
      unrecognized_ordering_no_solution [OF b, of "\<lambda>ord A b. [3]"
        "\<lparr>sparseJacobian = [(0, 0, 1), (0, 1, 2), (1, 0, 1), (1, 1, 4)], getKeyDimMap = [(0, 1)]\<rparr>"
        "\<lambda>ord A b. [3]"]
      unrecognized_ordering_no_solution [OF a, of "\<lambda>ord A b. [3]"
        "\<lparr>sparseJacobian = [(0, 0, 1), (0, 1, 2), (1, 0, 1), (1, 1, 4)], getKeyDimMap = [(0, 1)]\<rparr>"
        "\<lambda>ord A b. [3]"]
    by simp
qed

text \<open>
  Claim C6. The QR strategy hands the solver the matrix \<open>A\<close> made of all columns of \<open>Ab\<close>
  but the last and the last column \<open>b\<close>, and returns the solver's answer. With a solver that
  meets the least-squares contract on what it is handed, the answer has one entry per column
  of \<open>A\<close> and no vector of that length has a smaller residual \<open>\<parallel>A x - b\<parallel>\<^sub>2\<^sup>2\<close>, the residual
  being read off \<open>Ab\<close> itself. For each of the four orderings the entry point returns the
  answer of \<^verbatim>\<open>SparseQR\<close> instantiated with that ordering on the assembled matrix.
\<close>

theorem solveQR_least_squares:
  fixes Ab :: SpMat and solver :: EigenSolver
  defines "A \<equiv> block Ab 0 0 (nrows Ab) (ncols Ab - 1)"
      and "b \<equiv> col_SpMat Ab (ncols Ab - 1)"
  assumes "leastSquares A b (solver A b)"
  shows "solveQR solver Ab = solver A b
       \<and> length (solveQR solver Ab) = unat (ncols Ab - 1)
       \<and> (\<forall>y. length y = unat (ncols Ab - 1) \<longrightarrow>
             lsResidual Ab (solveQR solver Ab) \<le> lsResidual Ab y)
       \<and> optimizeEigenQR SparseQR gfg (orderingName ord) =
           VectorValues (solveQR (SparseQR ord) (obtainSparseMatrix gfg)) (getKeyDimMap gfg)"
proof (intro conjI allI impI)
  show eq: "solveQR solver Ab = solver A b"
    by (simp add: solveQR_eq A_def b_def)
  have nc: "ncols A = ncols Ab - 1" by (simp add: A_def block_def)
  from assms(3) show "length (solveQR solver Ab) = unat (ncols Ab - 1)"
    by (simp add: eq leastSquares_def nc)
  show "lsResidual Ab (solveQR solver Ab) \<le> lsResidual Ab y"
    if "length y = unat (ncols Ab - 1)" for y
  proof -
    from assms(3) that have "residual2 A b (solver A b) \<le> residual2 A b y"
      by (simp add: leastSquares_def nc)
    then show ?thesis
      by (simp add: eq A_def b_def residual2_split)
  qed
  show "optimizeEigenQR SparseQR gfg (orderingName ord) =
           VectorValues (solveQR (SparseQR ord) (obtainSparseMatrix gfg)) (getKeyDimMap gfg)"
    by (rule optimizeEigenQR_recognized)
qed

text \<open>
  On the two-factor system a solver answering \<open>[3]\<close> meets the contract; \<open>[3]\<close> is
  returned and its residual is not above that of \<open>[5]\<close>.
\<close>

theorem solveQR_least_squares_witness:
  "leastSquares
     (block (obtainSparseMatrix
        \<lparr>sparseJacobian = [(0, 0, 1), (0, 1, 2), (1, 0, 1), (1, 1, 4)], getKeyDimMap = [(0, 1)]\<rparr>) 0 0 2 1)
     (col_SpMat (obtainSparseMatrix
        \<lparr>sparseJacobian = [(0, 0, 1), (0, 1, 2), (1, 0, 1), (1, 1, 4)], getKeyDimMap = [(0, 1)]\<rparr>) 1)
     [3]
   \<and> solveQR (\<lambda>A b. [3]) (obtainSparseMatrix
        \<lparr>sparseJacobian = [(0, 0, 1), (0, 1, 2), (1, 0, 1), (1, 1, 4)], getKeyDimMap = [(0, 1)]\<rparr>) = [3]
   \<and> lsResidual (obtainSparseMatrix
        \<lparr>sparseJacobian = [(0, 0, 1), (0, 1, 2), (1, 0, 1), (1, 1, 4)], getKeyDimMap = [(0, 1)]\<rparr>)
        (solveQR (\<lambda>A b. [3]) (obtainSparseMatrix
        \<lparr>sparseJacobian = [(0, 0, 1), (0, 1, 2), (1, 0, 1), (1, 1, 4)], getKeyDimMap = [(0, 1)]\<rparr>))
       \<le> lsResidual (obtainSparseMatrix
        \<lparr>sparseJacobian = [(0, 0, 1), (0, 1, 2), (1, 0, 1), (1, 1, 4)], getKeyDimMap = [(0, 1)]\<rparr>) [5]
   \<and> optimizeEigenQR (\<lambda>ord A b. [3])
        \<lparr>sparseJacobian = [(0, 0, 1), (0, 1, 2), (1, 0, 1), (1, 1, 4)], getKeyDimMap = [(0, 1)]\<rparr>
        ''COLAMD'' = VectorValues [3] [(0, 1)]"
proof -
  let ?g = "\<lparr>sparseJacobian = [(0, 0, 1), (0, 1, 2), (1, 0, 1), (1, 1, 4)], getKeyDimMap = [(0, 1)]\<rparr>"
  have h: "leastSquares (block (obtainSparseMatrix ?g) 0 0 2 1) (col_SpMat (obtainSparseMatrix ?g) 1) [3]"
    by (rule example_least_squares)
  then have h': "leastSquares
      (block (obtainSparseMatrix ?g) 0 0 (nrows (obtainSparseMatrix ?g)) (ncols (obtainSparseMatrix ?g) - 1))
      (col_SpMat (obtainSparseMatrix ?g) (ncols (obtainSparseMatrix ?g) - 1))
      ((\<lambda>A b. [3])
        (block (obtainSparseMatrix ?g) 0 0 (nrows (obtainSparseMatrix ?g)) (ncols (obtainSparseMatrix ?g) - 1))
        (col_SpMat (obtainSparseMatrix ?g) (ncols (obtainSparseMatrix ?g) - 1)))"
    by (simp add: example_shape)
  note T = solveQR_least_squares [OF h', of "\<lambda>ord A b. [3]" ?g COLAMDOrdering]
  from T have t1: "solveQR (\<lambda>A b. [3]) (obtainSparseMatrix ?g) = [3]"
    by simp
  from T have "\<forall>y. length y = unat (ncols (obtainSparseMatrix ?g) - 1) \<longrightarrow>
      lsResidual (obtainSparseMatrix ?g) (solveQR (\<lambda>A b. [3]) (obtainSparseMatrix ?g))
        \<le> lsResidual (obtainSparseMatrix ?g) y"
    by blast
  then have t3: "lsResidual (obtainSparseMatrix ?g) (solveQR (\<lambda>A b. [3]) (obtainSparseMatrix ?g))
        \<le> lsResidual (obtainSparseMatrix ?g) [5]"
    by (simp add: example_shape)
  from T have t4: "optimizeEigenQR (\<lambda>ord A b. [3]) ?g ''COLAMD'' = VectorValues [3] [(0, 1)]"
    by (simp add: t1)
  from h t1 t3 t4 show ?thesis by blast
qed

text \<open>
  Claim C7. The Cholesky strategy splits \<open>Ab\<close> in the same way, forms \<open>N = A\<^sup>t A\<close> and
  \<open>c = A\<^sup>t b\<close> (coefficient by coefficient the sums over the rows of \<open>Ab\<close>), hands both to
  the solver and returns its answer. With a solver that solves the system it is handed, the
  answer solves the normal equations of \<open>Ab\<close>. For each of the four orderings the entry
  point returns the answer of \<^verbatim>\<open>SimplicialLDLT\<close> instantiated with that ordering.
\<close>

theorem solveCholesky_normal_equations:
  fixes Ab :: SpMat and solver :: EigenSolver
  defines "A \<equiv> block Ab 0 0 (nrows Ab) (ncols Ab - 1)"
      and "b \<equiv> col_SpMat Ab (ncols Ab - 1)"
  defines "N \<equiv> times_SpMat (transpose_SpMat A) A"
      and "c \<equiv> times_SpMat (transpose_SpMat A) b"
  assumes "solvesSystem N c (solver N c)"
  shows "solveCholesky solver Ab = solver N c
       \<and> nrows N = ncols Ab - 1 \<and> ncols N = ncols Ab - 1
       \<and> (\<forall>i j. i < ncols Ab - 1 \<and> j < ncols Ab - 1 \<longrightarrow> coeffs N i j = normalMatrix Ab i j)
       \<and> (\<forall>i. i < ncols Ab - 1 \<longrightarrow> coeffs c i 0 = normalRhs Ab i)
       \<and> solvesNormalEquations Ab (solveCholesky solver Ab)
       \<and> optimizeEigenCholesky SimplicialLDLT gfg (orderingName ord) =
           VectorValues (solveCholesky (SimplicialLDLT ord) (obtainSparseMatrix gfg))
             (getKeyDimMap gfg)"
proof (intro conjI allI impI)
  show eq: "solveCholesky solver Ab = solver N c"
    by (simp add: solveCholesky_eq N_def c_def A_def b_def)
  show "nrows N = ncols Ab - 1" "ncols N = ncols Ab - 1"
    by (simp_all add: N_def A_def shape_normal_matrix)
  show "coeffs N i j = normalMatrix Ab i j" if "i < ncols Ab - 1 \<and> j < ncols Ab - 1" for i j
    using that by (simp add: N_def A_def coeffs_normal_matrix)
  show "coeffs c i 0 = normalRhs Ab i" if "i < ncols Ab - 1" for i
    using that by (simp add: c_def A_def b_def coeffs_normal_rhs)
  from assms(5) show "solvesNormalEquations Ab (solveCholesky solver Ab)"
    unfolding eq unfolding N_def c_def A_def b_def by (rule solvesSystem_normal)
  show "optimizeEigenCholesky SimplicialLDLT gfg (orderingName ord) =
           VectorValues (solveCholesky (SimplicialLDLT ord) (obtainSparseMatrix gfg))
             (getKeyDimMap gfg)"
    by (rule optimizeEigenCholesky_recognized)
qed

text \<open>
  On the two-factor system \<open>N = [2]\<close> and \<open>c = [6]\<close>; a solver answering \<open>[3]\<close> solves
  \<open>N x = c\<close>, and \<open>[3]\<close> is returned.
\<close>

theorem solveCholesky_normal_equations_witness:
  "normalMatrix (obtainSparseMatrix
      \<lparr>sparseJacobian = [(0, 0, 1), (0, 1, 2), (1, 0, 1), (1, 1, 4)], getKeyDimMap = [(0, 1)]\<rparr>) 0 0 = 2
   \<and> normalRhs (obtainSparseMatrix
      \<lparr>sparseJacobian = [(0, 0, 1), (0, 1, 2), (1, 0, 1), (1, 1, 4)], getKeyDimMap = [(0, 1)]\<rparr>) 0 = 6
   \<and> solveCholesky (\<lambda>N c. [3]) (obtainSparseMatrix
      \<lparr>sparseJacobian = [(0, 0, 1), (0, 1, 2), (1, 0, 1), (1, 1, 4)], getKeyDimMap = [(0, 1)]\<rparr>) = [3]
   \<and> solvesNormalEquations (obtainSparseMatrix
      \<lparr>sparseJacobian = [(0, 0, 1), (0, 1, 2), (1, 0, 1), (1, 1, 4)], getKeyDimMap = [(0, 1)]\<rparr>)
       (solveCholesky (\<lambda>N c. [3]) (obtainSparseMatrix
      \<lparr>sparseJacobian = [(0, 0, 1), (0, 1, 2), (1, 0, 1), (1, 1, 4)], getKeyDimMap = [(0, 1)]\<rparr>))
   \<and> optimizeEigenCholesky (\<lambda>ord N c. [3])
        \<lparr>sparseJacobian = [(0, 0, 1), (0, 1, 2), (1, 0, 1), (1, 1, 4)], getKeyDimMap = [(0, 1)]\<rparr>
        ''NATURAL'' = VectorValues [3] [(0, 1)]"
proof -
  let ?g = "\<lparr>sparseJacobian = [(0, 0, 1), (0, 1, 2), (1, 0, 1), (1, 1, 4)], getKeyDimMap = [(0, 1)]\<rparr>"
  let ?Ab = "obtainSparseMatrix ?g"
  have h: "solvesSystem
     (times_SpMat (transpose_SpMat (block ?Ab 0 0 (nrows ?Ab) (ncols ?Ab - 1)))
                  (block ?Ab 0 0 (nrows ?Ab) (ncols ?Ab - 1)))
     (times_SpMat (transpose_SpMat (block ?Ab 0 0 (nrows ?Ab) (ncols ?Ab - 1)))
                  (col_SpMat ?Ab (ncols ?Ab - 1)))
     ((\<lambda>N c. [3])
       (times_SpMat (transpose_SpMat (block ?Ab 0 0 (nrows ?Ab) (ncols ?Ab - 1)))
                  (block ?Ab 0 0 (nrows ?Ab) (ncols ?Ab - 1)))
       (times_SpMat (transpose_SpMat (block ?Ab 0 0 (nrows ?Ab) (ncols ?Ab - 1)))
                  (col_SpMat ?Ab (ncols ?Ab - 1))))"
    using example_solves_system [of "[(0, 1)]"] by simp
  note T = solveCholesky_normal_equations [OF h, of "\<lambda>ord N c. [3]" ?g NaturalOrdering]
  from T have t1: "solveCholesky (\<lambda>N c. [3]) ?Ab = [3]" by simp
  from T have t2: "solvesNormalEquations ?Ab (solveCholesky (\<lambda>N c. [3]) ?Ab)" by blast
  from T have t3: "optimizeEigenCholesky (\<lambda>ord N c. [3]) ?g ''NATURAL'' = VectorValues [3] [(0, 1)]"
    by (simp add: t1)
  from t1 t2 t3 example_normal [of "[(0, 1)]"] show ?thesis by blast
qed






end
